theory Spec2Isabelle
  imports Main "HOL-Library.Word"
begin

unbundle bit_operations_syntax

section \<open>Objects, exceptions and the host runtime\<close>

text \<open>
  The theory embeds \<^verbatim>\<open>src/nativecompile/pyinternals.c\<close>: the call bridge
  (\<^verbatim>\<open>call_function\<close>, \<^verbatim>\<open>fast_function\<close>, \<^verbatim>\<open>update_keyword_args\<close>,
  \<^verbatim>\<open>load_args\<close>, \<^verbatim>\<open>do_call\<close>, \<^verbatim>\<open>err_args\<close>) and the loader type
  \<^verbatim>\<open>CompiledCode\<close>.

  A \<^verbatim>\<open>PyObject *\<close> is the address of the object, a natural number. What the C code
  reads from an object through the type-check and accessor macros of \<^verbatim>\<open>Python.h\<close> is
  given by the object's \<open>pytype\<close>. A failing call returns \<^verbatim>\<open>NULL\<close> with an exception
  pending; here the exception is the \<open>Inl\<close> value of the result.
\<close>

type_synonym obj = nat

datatype pyexc =
    TypeError string
      \<comment> \<open>\<^verbatim>\<open>PyErr_Format(PyExc_TypeError, ...)\<close>, with the formatted message\<close>
  | IOErrorWithFilename int string
      \<comment> \<open>\<^verbatim>\<open>PyErr_SetFromErrnoWithFilename(PyExc_IOError, filename)\<close>: errno and the path\<close>
  | OSErrorFromErrno int
      \<comment> \<open>\<^verbatim>\<open>PyErr_SetFromErrno(PyExc_OSError)\<close>: errno only\<close>
  | Raised nat
      \<comment> \<open>an exception raised inside the host runtime or inside a callee\<close>

type_synonym pyresult = "pyexc + obj"

record codeobj =
  co_argcount :: int
  co_kwonlyargcount :: int
  co_flags :: "32 word"

record funcobj =
  func_code :: codeobj
  func_globals :: obj
  func_defaults :: "obj list option"  \<comment> \<open>\<^verbatim>\<open>NULL\<close> or the items of the defaults tuple\<close>
  func_kwdefaults :: "obj option"
  func_closure :: "obj option"

datatype pytype =
    CFunctionType string "32 word" "obj option"
      \<comment> \<open>\<^verbatim>\<open>m_ml->ml_name\<close>, \<^verbatim>\<open>m_ml->ml_flags\<close>, \<^verbatim>\<open>m_self\<close>\<close>
  | MethodType "obj option" obj
      \<comment> \<open>\<^verbatim>\<open>im_self\<close> (may be \<^verbatim>\<open>NULL\<close>), \<^verbatim>\<open>im_func\<close>\<close>
  | FunctionType funcobj
  | UnicodeType string
  | OtherType

type_synonym kwdict = "(obj \<times> obj) list"

record frame =
  f_code :: codeobj
  f_globals :: obj
  f_localsplus :: "obj list"
    \<comment> \<open>the fast locals written so far; \<^verbatim>\<open>fastlocals[i]\<close> is written for
        \<open>i = 0, 1, 2, ...\<close> in this order, so each write appends\<close>

text \<open>
  Functions of the host runtime that the bridge calls. Their code is CPython's, not the
  repository's, so each is a parameter: a function of the arguments the bridge passes.
  \<open>Some e\<close> from an allocator is its failure with exception \<open>e\<close>.
\<close>

record host =
  ob_type :: "obj \<Rightarrow> pytype"
  meth_call :: "obj \<Rightarrow> obj option \<Rightarrow> obj option \<Rightarrow> pyresult"
    \<comment> \<open>\<^verbatim>\<open>(*meth)(self, arg)\<close> for the native function object given first\<close>
  PyCFunction_Call :: "obj \<Rightarrow> obj list option \<Rightarrow> kwdict option \<Rightarrow> pyresult"
  PyObject_Call :: "obj \<Rightarrow> obj list \<Rightarrow> kwdict option \<Rightarrow> pyresult"
  PyFrame_New :: "codeobj \<Rightarrow> obj \<Rightarrow> pyexc option"
  PyEval_EvalFrameEx :: "frame \<Rightarrow> pyresult"
  PyEval_EvalCodeEx ::
    "codeobj \<Rightarrow> obj \<Rightarrow> obj list \<Rightarrow> obj list \<Rightarrow> obj list \<Rightarrow> obj option \<Rightarrow> obj option \<Rightarrow> pyresult"
    \<comment> \<open>code, globals, the array \<^verbatim>\<open>args[0..argcount-1]\<close>, the array
        \<^verbatim>\<open>kws[0..2*kwcount-1]\<close>, the array \<^verbatim>\<open>defs[0..defcount-1]\<close>, kwdefs, closure\<close>
  PyTuple_New :: "nat \<Rightarrow> pyexc option"
  PyDict_New :: "pyexc option"
  PyDict_Copy :: "obj \<Rightarrow> pyexc option"
  PyDict_SetItem :: "kwdict \<Rightarrow> obj \<Rightarrow> obj \<Rightarrow> pyexc option"
  PyEval_GetFuncName :: "obj \<Rightarrow> string"
  PyEval_GetFuncDesc :: "obj \<Rightarrow> string"

text \<open>Flag values of the headers the file includes (\<^verbatim>\<open>methodobject.h\<close>, \<^verbatim>\<open>code.h\<close>).\<close>

definition METH_NOARGS :: "32 word" where "METH_NOARGS = 0x0004"
definition METH_O :: "32 word" where "METH_O = 0x0008"
definition CO_OPTIMIZED :: "32 word" where "CO_OPTIMIZED = 0x0001"
definition CO_NEWLOCALS :: "32 word" where "CO_NEWLOCALS = 0x0002"
definition CO_NOFREE :: "32 word" where "CO_NOFREE = 0x0040"

definition PyCFunction_Check :: "host \<Rightarrow> obj \<Rightarrow> bool" where
  "PyCFunction_Check h ob = (case ob_type h ob of CFunctionType _ _ _ \<Rightarrow> True | _ \<Rightarrow> False)"

definition PyCFunction_GET_FLAGS :: "host \<Rightarrow> obj \<Rightarrow> 32 word" where
  "PyCFunction_GET_FLAGS h ob = (case ob_type h ob of CFunctionType _ fl _ \<Rightarrow> fl | _ \<Rightarrow> 0)"

definition PyCFunction_GET_SELF :: "host \<Rightarrow> obj \<Rightarrow> obj option" where
  "PyCFunction_GET_SELF h ob = (case ob_type h ob of CFunctionType _ _ sf \<Rightarrow> sf | _ \<Rightarrow> None)"

definition ml_name :: "host \<Rightarrow> obj \<Rightarrow> string" where
  "ml_name h ob = (case ob_type h ob of CFunctionType nm _ _ \<Rightarrow> nm | _ \<Rightarrow> [])"

definition PyMethod_Check :: "host \<Rightarrow> obj \<Rightarrow> bool" where
  "PyMethod_Check h ob = (case ob_type h ob of MethodType _ _ \<Rightarrow> True | _ \<Rightarrow> False)"

definition PyMethod_GET_SELF :: "host \<Rightarrow> obj \<Rightarrow> obj option" where
  "PyMethod_GET_SELF h ob = (case ob_type h ob of MethodType sf _ \<Rightarrow> sf | _ \<Rightarrow> None)"

definition PyMethod_GET_FUNCTION :: "host \<Rightarrow> obj \<Rightarrow> obj" where
  "PyMethod_GET_FUNCTION h ob = (case ob_type h ob of MethodType _ fn \<Rightarrow> fn | _ \<Rightarrow> ob)"

section \<open>The caller's stack and the thread state\<close>

text \<open>
  \<open>mem\<close> is the caller's stack memory, one object reference per slot, index = address.
  The stack grows towards lower addresses: the top of the stack is the lowest address in
  use and \<^verbatim>\<open>EXT_POP\<close> reads a slot and moves the pointer up. A read at an address
  outside \<open>mem\<close> is undefined behaviour in C; the model returns \<open>None\<close> for it, and
  \<open>None\<close> is passed on by every caller.

  \<open>ob_refcnt\<close> holds the reference counts as the bridge changes them: by its own
  \<^verbatim>\<open>Py_INCREF\<close> and \<^verbatim>\<open>Py_DECREF\<close>, and by releasing the frame of the fast path, whose
  destructor gives back the references taken for the frame's locals. Tuples, dictionaries
  and frames that the bridge has the host allocate are values of the model; releasing one
  of them, the execution of a frame and the updates of \<^verbatim>\<open>tstate->recursion_depth\<close> are
  appended to \<open>trace\<close> in program order.
\<close>

datatype event =
    EvalFrameEx frame
  | RecursionInc
  | RecursionDec
  | DecrefFrame frame
  | DecrefTuple "obj list"
  | DecrefDict kwdict

record rt =
  mem :: "obj list"
  ob_refcnt :: "obj \<Rightarrow> int"
  recursion_depth :: int
  trace :: "event list"

definition EXT_POP :: "rt \<Rightarrow> nat \<Rightarrow> (obj \<times> nat) option" where
  "EXT_POP s p = (if p < length (mem s) then Some (mem s ! p, p + 1) else None)"

definition Py_INCREF :: "obj \<Rightarrow> rt \<Rightarrow> rt" where
  "Py_INCREF ob s = s\<lparr>ob_refcnt := (ob_refcnt s)(ob := ob_refcnt s ob + 1)\<rparr>"

definition Py_DECREF :: "obj \<Rightarrow> rt \<Rightarrow> rt" where
  "Py_DECREF ob s = s\<lparr>ob_refcnt := (ob_refcnt s)(ob := ob_refcnt s ob - 1)\<rparr>"

definition log_event :: "event \<Rightarrow> rt \<Rightarrow> rt" where
  "log_event e s = s\<lparr>trace := trace s @ [e]\<rparr>"

definition Py_XDECREF_tuple :: "obj list option \<Rightarrow> rt \<Rightarrow> rt" where
  "Py_XDECREF_tuple t s = (case t of None \<Rightarrow> s | Some items \<Rightarrow> log_event (DecrefTuple items) s)"

definition Py_XDECREF_dict :: "kwdict option \<Rightarrow> rt \<Rightarrow> rt" where
  "Py_XDECREF_dict d s = (case d of None \<Rightarrow> s | Some kv \<Rightarrow> log_event (DecrefDict kv) s)"

section \<open>Formatting\<close>

definition digit_char :: "nat \<Rightarrow> char" where
  "digit_char d = ''0123456789'' ! d"

fun fmt_nat :: "nat \<Rightarrow> string" where
  "fmt_nat n = (if n < 10 then [digit_char n] else fmt_nat (n div 10) @ [digit_char (n mod 10)])"

declare fmt_nat.simps [simp del]

definition fmt_d :: "int \<Rightarrow> string" where
  "fmt_d i = (if i < 0 then CHR ''-'' # fmt_nat (nat (- i)) else fmt_nat (nat i))"

text \<open>\<^verbatim>\<open>err_args\<close>: the exception it makes pending.\<close>

definition err_args :: "host \<Rightarrow> obj \<Rightarrow> 32 word \<Rightarrow> int \<Rightarrow> pyexc" where
  "err_args h func flags nargs =
     (if flags AND METH_NOARGS \<noteq> 0
      then TypeError (take 200 (ml_name h func) @ ''() takes no arguments ('' @ fmt_d nargs @ '' given)'')
      else TypeError (take 200 (ml_name h func) @ ''() takes exactly one argument ('' @ fmt_d nargs
             @ '' given)''))"

section \<open>Argument tuple and keyword dictionary\<close>

text \<open>
  \<^verbatim>\<open>load_args\<close>. \<^verbatim>\<open>PyTuple_SET_ITEM(args, na, w)\<close> with \<open>na\<close> counting down fills the
  tuple from its last index to its first, so each popped reference is put in front of
  those already stored.
\<close>

fun load_args_loop :: "nat \<Rightarrow> obj list \<Rightarrow> nat \<Rightarrow> rt \<Rightarrow> (obj list \<times> nat) option" where
  "load_args_loop 0 args p s = Some (args, p)"
| "load_args_loop (Suc na) args p s =
     (case EXT_POP s p of
        None \<Rightarrow> None
      | Some (w, p') \<Rightarrow> load_args_loop na (w # args) p' s)"

definition load_args :: "host \<Rightarrow> rt \<Rightarrow> nat \<Rightarrow> nat \<Rightarrow> ((pyexc + obj list) \<times> nat) option" where
  "load_args h s p na =
     (case PyTuple_New h na of
        Some e \<Rightarrow> Some (Inl e, p)
      | None \<Rightarrow>
          (case load_args_loop na [] p s of
             None \<Rightarrow> None
           | Some (args, p') \<Rightarrow> Some (Inr args, p')))"

text \<open>
  \<^verbatim>\<open>PyDict_GetItem\<close> on the dictionary under construction: a stored key matches when it
  is the same object or a string with the same text. \<^verbatim>\<open>%U\<close> prints the text of a
  string object.
\<close>

definition key_eq :: "host \<Rightarrow> obj \<Rightarrow> obj \<Rightarrow> bool" where
  "key_eq h a b =
     (a = b \<or>
      (case ob_type h a of
         UnicodeType x \<Rightarrow> (case ob_type h b of UnicodeType y \<Rightarrow> x = y | _ \<Rightarrow> False)
       | _ \<Rightarrow> False))"

definition PyDict_GetItem :: "host \<Rightarrow> kwdict \<Rightarrow> obj \<Rightarrow> obj option" where
  "PyDict_GetItem h d key = map_option snd (find (\<lambda>kv. key_eq h (fst kv) key) d)"

definition fmt_U :: "host \<Rightarrow> obj \<Rightarrow> string" where
  "fmt_U h ob = (case ob_type h ob of UnicodeType x \<Rightarrow> x | _ \<Rightarrow> [])"

definition multiple_values_error :: "host \<Rightarrow> obj \<Rightarrow> obj \<Rightarrow> pyexc" where
  "multiple_values_error h func key =
     TypeError (take 200 (PyEval_GetFuncName h func) @ PyEval_GetFuncDesc h func
       @ '' got multiple values for keyword argument '' @ [CHR 0x27] @ fmt_U h key @ [CHR 0x27])"

fun update_keyword_args_loop ::
  "host \<Rightarrow> obj \<Rightarrow> nat \<Rightarrow> kwdict \<Rightarrow> nat \<Rightarrow> rt \<Rightarrow> ((pyexc + kwdict) \<times> nat \<times> rt) option" where
  "update_keyword_args_loop h func 0 kwdict p s = Some (Inr kwdict, p, s)"
| "update_keyword_args_loop h func (Suc nk) kwdict p s =
     (case EXT_POP s p of
        None \<Rightarrow> None
      | Some (val, p1) \<Rightarrow>
          (case EXT_POP s p1 of
             None \<Rightarrow> None
           | Some (key, p2) \<Rightarrow>
               if PyDict_GetItem h kwdict key \<noteq> None
               then Some (Inl (multiple_values_error h func key), p2,
                          log_event (DecrefDict kwdict) (Py_DECREF val (Py_DECREF key s)))
               else
                 (case PyDict_SetItem h kwdict key val of
                    Some e \<Rightarrow>
                      Some (Inl e, p2,
                            log_event (DecrefDict kwdict) (Py_DECREF val (Py_DECREF key s)))
                  | None \<Rightarrow>
                      update_keyword_args_loop h func nk (kwdict @ [(key, val)]) p2
                        (Py_DECREF val (Py_DECREF key s)))))"

text \<open>
  \<^verbatim>\<open>update_keyword_args\<close>. \<open>orig_kwdict\<close> is \<^verbatim>\<open>NULL\<close> or an existing dictionary: its
  address and its entries.
\<close>

definition update_keyword_args ::
  "host \<Rightarrow> (obj \<times> kwdict) option \<Rightarrow> nat \<Rightarrow> nat \<Rightarrow> obj \<Rightarrow> rt \<Rightarrow> ((pyexc + kwdict) \<times> nat \<times> rt) option" where
  "update_keyword_args h orig_kwdict nk p func s =
     (case orig_kwdict of
        None \<Rightarrow>
          (case PyDict_New h of
             Some e \<Rightarrow> Some (Inl e, p, s)
           | None \<Rightarrow> update_keyword_args_loop h func nk [] p s)
      | Some (d, entries) \<Rightarrow>
          (case PyDict_Copy h d of
             Some e \<Rightarrow> Some (Inl e, p, Py_DECREF d s)
           | None \<Rightarrow> update_keyword_args_loop h func nk entries p (Py_DECREF d s)))"

text \<open>
  \<^verbatim>\<open>do_call\<close>. \<open>do_call_args\<close> is the function from \<^verbatim>\<open>callargs = load_args(...)\<close>
  to its end, with \<open>kwdict\<close> as built so far (\<open>None\<close> is \<^verbatim>\<open>NULL\<close>).
\<close>

definition do_call_args ::
  "host \<Rightarrow> obj \<Rightarrow> kwdict option \<Rightarrow> nat \<Rightarrow> nat \<Rightarrow> rt \<Rightarrow> (pyresult \<times> nat \<times> rt) option" where
  "do_call_args h func kwdict p na s =
     (case load_args h s p na of
        None \<Rightarrow> None
      | Some (Inl e, p') \<Rightarrow> Some (Inl e, p', Py_XDECREF_dict kwdict s)
      | Some (Inr callargs, p') \<Rightarrow>
          Some (if PyCFunction_Check h func
                then PyCFunction_Call h func (Some callargs) kwdict
                else PyObject_Call h func callargs kwdict,
                p',
                Py_XDECREF_dict kwdict (Py_XDECREF_tuple (Some callargs) s)))"

definition do_call :: "host \<Rightarrow> obj \<Rightarrow> nat \<Rightarrow> nat \<Rightarrow> nat \<Rightarrow> rt \<Rightarrow> (pyresult \<times> nat \<times> rt) option" where
  "do_call h func p na nk s =
     (if nk > 0
      then
        (case update_keyword_args h None nk p func s of
           None \<Rightarrow> None
         | Some (Inl e, p', s') \<Rightarrow> Some (Inl e, p', s')
         | Some (Inr kwdict, p', s') \<Rightarrow> do_call_args h func (Some kwdict) p' na s')
      else do_call_args h func None p na s)"

section \<open>Interpreted functions\<close>

text \<open>
  The copy loop of \<^verbatim>\<open>fast_function\<close>. The pointer \<^verbatim>\<open>stack\<close> starts at
  \<^verbatim>\<open>(*pp_stack) + n - 1\<close> and is decremented once per iteration, so iteration \<open>i\<close>
  reads the slot \<open>hi - i\<close> with \<open>hi = pp_stack + n - 1\<close>.
\<close>

function fast_copy_args :: "nat \<Rightarrow> nat \<Rightarrow> nat \<Rightarrow> frame \<Rightarrow> rt \<Rightarrow> (frame \<times> rt) option" where
  "fast_copy_args i n hi f s =
     (if i < n
      then
        (if hi - i < length (mem s)
         then fast_copy_args (i + 1) n hi
                (f\<lparr>f_localsplus := f_localsplus f @ [mem s ! (hi - i)]\<rparr>)
                (Py_INCREF (mem s ! (hi - i)) s)
         else None)
      else Some (f, s))"
  by pat_completeness auto
termination
  by (relation "measure (\<lambda>(i, n, hi, f, s). n - i)") auto

declare fast_copy_args.simps [simp del]

text \<open>
  An array handed to the host as a pointer and a count: the host reads \<open>count\<close> slots
  at ascending addresses from \<open>p\<close>.
\<close>

definition array_at :: "obj list \<Rightarrow> nat \<Rightarrow> nat \<Rightarrow> obj list option" where
  "array_at m p count = (if p + count \<le> length m then Some (take count (drop p m)) else None)"

text \<open>
  \<^verbatim>\<open>Py_DECREF(f)\<close> at line 161 drops the only reference to the frame that
  \<^verbatim>\<open>PyFrame_New\<close> made at line 148: the frame's destructor runs and gives back the
  references that line 156 took for its locals.
\<close>

definition Py_DECREF_frame :: "frame \<Rightarrow> rt \<Rightarrow> rt" where
  "Py_DECREF_frame f s = fold Py_DECREF (f_localsplus f) (log_event (DecrefFrame f) s)"

definition fast_path_eligible :: "funcobj \<Rightarrow> nat \<Rightarrow> nat \<Rightarrow> bool" where
  "fast_path_eligible fn n nk =
     (func_defaults fn = None \<and> co_argcount (func_code fn) = int n \<and>
      co_kwonlyargcount (func_code fn) = 0 \<and> nk = 0 \<and>
      co_flags (func_code fn) = (CO_OPTIMIZED OR CO_NEWLOCALS OR CO_NOFREE))"

definition fast_function ::
  "host \<Rightarrow> funcobj \<Rightarrow> nat \<Rightarrow> nat \<Rightarrow> nat \<Rightarrow> nat \<Rightarrow> rt \<Rightarrow> (pyresult \<times> rt) option" where
  "fast_function h fn p n na nk s =
     (let co = func_code fn;
          globals = func_globals fn;
          argdefs = func_defaults fn;
          kwdefs = func_kwdefaults fn
      in
        if fast_path_eligible fn n nk
        then
          (case PyFrame_New h co globals of
             Some e \<Rightarrow> Some (Inl e, s)
           | None \<Rightarrow>
               (case fast_copy_args 0 n (p + n - 1)
                       \<lparr>f_code = co, f_globals = globals, f_localsplus = []\<rparr> s of
                  None \<Rightarrow> None
                | Some (f, s1) \<Rightarrow>
                    let retval = PyEval_EvalFrameEx h f;
                        s2 = log_event (EvalFrameEx f) s1;
                        s3 = log_event RecursionInc (s2\<lparr>recursion_depth := recursion_depth s2 + 1\<rparr>);
                        s4 = Py_DECREF_frame f s3;
                        s5 = log_event RecursionDec (s4\<lparr>recursion_depth := recursion_depth s4 - 1\<rparr>)
                    in Some (retval, s5)))
        else
          (case array_at (mem s) (p + n - 1) na of
             None \<Rightarrow> None
           | Some args \<Rightarrow>
               (case array_at (mem s) (p + 2 * nk - 1) (2 * nk) of
                  None \<Rightarrow> None
                | Some kws \<Rightarrow>
                    Some (PyEval_EvalCodeEx h co globals args kws
                            (case argdefs of None \<Rightarrow> [] | Some ds \<Rightarrow> ds)
                            kwdefs (func_closure fn),
                          s))))"

section \<open>The call bridge\<close>

text \<open>The closing loop of \<^verbatim>\<open>call_function\<close>: \<^verbatim>\<open>while (pp_stack > pfunc)\<close>.\<close>

function drain :: "nat \<Rightarrow> nat \<Rightarrow> rt \<Rightarrow> (nat \<times> rt) option" where
  "drain p pfunc s =
     (if p > pfunc
      then
        (case EXT_POP s p of
           None \<Rightarrow> None
         | Some (w, p') \<Rightarrow> drain p' pfunc (Py_DECREF w s))
      else Some (p, s))"
  by pat_completeness auto
termination
  by (relation "measure (\<lambda>(p, pfunc, s). length (mem s) - p)")
     (auto simp: EXT_POP_def Py_DECREF_def split: if_splits)

declare drain.simps [simp del]

text \<open>The branch for a native function called without keyword arguments (lines 77 to 100).\<close>

definition call_native :: "host \<Rightarrow> obj \<Rightarrow> nat \<Rightarrow> nat \<Rightarrow> rt \<Rightarrow> (pyresult \<times> nat \<times> rt) option" where
  "call_native h func p na s =
     (let flags = PyCFunction_GET_FLAGS h func in
        if flags AND (METH_NOARGS OR METH_O) \<noteq> 0
        then
          (let self = PyCFunction_GET_SELF h func in
             if flags AND METH_NOARGS \<noteq> 0 \<and> na = 0
             then Some (meth_call h func self None, p, s)
             else if flags AND METH_O \<noteq> 0 \<and> na = 1
             then
               (case EXT_POP s p of
                  None \<Rightarrow> None
                | Some (arg, p') \<Rightarrow> Some (meth_call h func self (Some arg), p', Py_DECREF arg s))
             else Some (Inl (err_args h func flags (int na)), p, s))
        else
          (case load_args h s p na of
             None \<Rightarrow> None
           | Some (callargs, p') \<Rightarrow>
               (let ca = (case callargs of Inl e \<Rightarrow> None | Inr items \<Rightarrow> Some items)
                in Some (PyCFunction_Call h func ca None, p', Py_XDECREF_tuple ca s))))"

text \<open>
  The other branch (lines 102 to 117): the rewrite of a bound method, then
  \<^verbatim>\<open>fast_function\<close> or \<^verbatim>\<open>do_call\<close>, then \<^verbatim>\<open>Py_DECREF(func)\<close>.
\<close>

definition call_general ::
  "host \<Rightarrow> obj \<Rightarrow> nat \<Rightarrow> nat \<Rightarrow> nat \<Rightarrow> nat \<Rightarrow> nat \<Rightarrow> rt \<Rightarrow> (pyresult \<times> nat \<times> rt) option" where
  "call_general h func0 p pfunc na0 nk n0 s =
     (let bound = (PyMethod_Check h func0 \<and> PyMethod_GET_SELF h func0 \<noteq> None);
          func = (if bound then PyMethod_GET_FUNCTION h func0 else func0);
          na = (if bound then na0 + 1 else na0);
          n = (if bound then n0 + 1 else n0);
          s1 = (if bound
                then (Py_DECREF (mem s ! pfunc)
                        (Py_INCREF func (Py_INCREF (the (PyMethod_GET_SELF h func0)) s)))
                     \<lparr>mem := (mem s)[pfunc := the (PyMethod_GET_SELF h func0)]\<rparr>
                else Py_INCREF func s)
      in
        (case (case ob_type h func of
                 FunctionType fn \<Rightarrow>
                   map_option (\<lambda>(x, s'). (x, p, s')) (fast_function h fn p n na nk s1)
               | _ \<Rightarrow> do_call h func p na nk s1) of
           None \<Rightarrow> None
         | Some (x, p', s2) \<Rightarrow> Some (x, p', Py_DECREF func s2)))"

definition call_function :: "host \<Rightarrow> rt \<Rightarrow> nat \<Rightarrow> 32 word \<Rightarrow> (pyresult \<times> nat \<times> rt) option" where
  "call_function h s pp_stack oparg =
     (let na = unat (oparg AND 0xff);
          nk = unat (drop_bit 8 oparg AND 0xff);
          n = na + 2 * nk;
          pfunc = pp_stack + n
      in
        if pfunc < length (mem s)
        then
          (let func = mem s ! pfunc in
             (case (if PyCFunction_Check h func \<and> nk = 0
                    then call_native h func pp_stack na s
                    else call_general h func pp_stack pfunc na nk n s) of
                None \<Rightarrow> None
              | Some (x, p, s') \<Rightarrow>
                  (case drain p pfunc s' of
                     None \<Rightarrow> None
                   | Some (p', s'') \<Rightarrow> Some (x, p', s''))))
        else None)"

section \<open>The loader\<close>

text \<open>
  The type \<^verbatim>\<open>CompiledCode\<close> in the configuration with \<^verbatim>\<open>USE_MMAP\<close>, the one the
  preprocessor selects on Linux. \<open>entry = None\<close> is the \<^verbatim>\<open>NULL\<close> entry pointer;
  \<^verbatim>\<open>tp_alloc\<close> hands out zeroed memory, so \<open>fd\<close> and \<open>len\<close> start at 0.

  The operating system and the host functions the loader calls are parameters. A system
  call that fails gives its \<^verbatim>\<open>errno\<close> as \<open>Inl\<close> (or \<open>Some\<close> where it returns no value).
\<close>

record CompiledCode =
  code :: obj
  entry :: "nat option"
  fd :: int
  len :: nat

record os =
  parse_args :: "obj \<Rightarrow> obj option \<Rightarrow> pyexc + (obj \<times> string \<times> obj)"
    \<comment> \<open>\<^verbatim>\<open>PyArg_ParseTupleAndKeywords\<close> with \<^verbatim>\<open>"O&O"\<close>: the bytes object made by
        \<^verbatim>\<open>PyUnicode_FSConverter\<close>, its characters, and \<^verbatim>\<open>code\<close>\<close>
  tp_alloc :: "pyexc option"
  sys_open :: "string \<Rightarrow> int + nat"
  sys_lseek_end :: "nat \<Rightarrow> int + nat"
  sys_lseek_set :: "nat \<Rightarrow> int option"
  sys_mmap :: "nat \<Rightarrow> nat \<Rightarrow> int + nat"
  sys_close :: "nat \<Rightarrow> int option"
  native_code :: "nat \<Rightarrow> pyresult"
    \<comment> \<open>what the machine code at an address does when called with no argument\<close>

record world =
  w_refcnt :: "obj \<Rightarrow> int"
  w_errno :: int
  w_open :: "nat list"  \<comment> \<open>open file descriptors\<close>
  w_mapped :: "(nat \<times> nat) list"  \<comment> \<open>mapped regions: base address and length\<close>

definition w_incref :: "obj \<Rightarrow> world \<Rightarrow> world" where
  "w_incref ob w = w\<lparr>w_refcnt := (w_refcnt w)(ob := w_refcnt w ob + 1)\<rparr>"

definition w_decref :: "obj \<Rightarrow> world \<Rightarrow> world" where
  "w_decref ob w = w\<lparr>w_refcnt := (w_refcnt w)(ob := w_refcnt w ob - 1)\<rparr>"

definition c_close :: "os \<Rightarrow> nat \<Rightarrow> world \<Rightarrow> world" where
  "c_close y d w =
     (case sys_close y d of
        None \<Rightarrow> w\<lparr>w_open := remove1 d (w_open w)\<rparr>
      | Some e \<Rightarrow> w\<lparr>w_open := remove1 d (w_open w), w_errno := e\<rparr>)"

definition c_munmap :: "nat \<Rightarrow> nat \<Rightarrow> world \<Rightarrow> world" where
  "c_munmap base l w = w\<lparr>w_mapped := remove1 (base, l) (w_mapped w)\<rparr>"

definition CompiledCode_dealloc :: "os \<Rightarrow> CompiledCode \<Rightarrow> world \<Rightarrow> world" where
  "CompiledCode_dealloc y self w =
     w_decref (code self)
       (case entry self of
          None \<Rightarrow> w
        | Some base \<Rightarrow> c_close y (nat (fd self)) (c_munmap base (len self) w))"

text \<open>
  The two error labels of \<^verbatim>\<open>CompiledCode_new\<close>. \<^verbatim>\<open>Py_DECREF(self)\<close> drops the only
  reference to the object just allocated, so its destructor runs.
\<close>

definition error_exit :: "os \<Rightarrow> CompiledCode \<Rightarrow> obj \<Rightarrow> pyexc \<Rightarrow> world \<Rightarrow> (pyexc + CompiledCode) \<times> world" where
  "error_exit y self filename_o e w = (Inl e, w_decref filename_o (CompiledCode_dealloc y self w))"

definition io_error_exit :: "os \<Rightarrow> CompiledCode \<Rightarrow> obj \<Rightarrow> string \<Rightarrow> world \<Rightarrow> (pyexc + CompiledCode) \<times> world" where
  "io_error_exit y self filename_o filename_s w =
     error_exit y self filename_o (IOErrorWithFilename (w_errno w) filename_s) w"

definition CompiledCode_new :: "os \<Rightarrow> obj \<Rightarrow> obj option \<Rightarrow> world \<Rightarrow> (pyexc + CompiledCode) \<times> world" where
  "CompiledCode_new y args kwds w =
     (case parse_args y args kwds of
        Inl e \<Rightarrow> (Inl e, w)
      | Inr (filename_o, filename_s, code_o) \<Rightarrow>
          (case tp_alloc y of
             Some e \<Rightarrow> (Inl e, w_decref filename_o w)
           | None \<Rightarrow>
               (let self = \<lparr>code = code_o, entry = None, fd = 0, len = 0\<rparr>;
                    w1 = w_incref code_o w
                in
                  case sys_open y filename_s of
                    Inl e \<Rightarrow>
                      io_error_exit y (self\<lparr>fd := - 1\<rparr>) filename_o filename_s (w1\<lparr>w_errno := e\<rparr>)
                  | Inr d \<Rightarrow>
                      (let self1 = self\<lparr>fd := int d\<rparr>;
                           w2 = w1\<lparr>w_open := d # w_open w1\<rparr>
                       in
                         case sys_lseek_end y d of
                           Inl e \<Rightarrow>
                             io_error_exit y self1 filename_o filename_s
                               (c_close y d (w2\<lparr>w_errno := e\<rparr>))
                         | Inr slen \<Rightarrow>
                             (case sys_lseek_set y d of
                                Some e \<Rightarrow>
                                  io_error_exit y self1 filename_o filename_s
                                    (c_close y d (w2\<lparr>w_errno := e\<rparr>))
                              | None \<Rightarrow>
                                  (let self2 = self1\<lparr>len := slen\<rparr> in
                                     case sys_mmap y slen d of
                                       Inl e \<Rightarrow>
                                         (let w3 = c_close y d (w2\<lparr>w_errno := e\<rparr>)
                                          in error_exit y self2 filename_o
                                               (OSErrorFromErrno (w_errno w3)) w3)
                                     | Inr base \<Rightarrow>
                                         (Inr (self2\<lparr>entry := Some base\<rparr>),
                                          w_decref filename_o
                                            (w2\<lparr>w_mapped := (base, slen) # w_mapped w2\<rparr>))))))))"

text \<open>\<^verbatim>\<open>CompiledCode_call\<close>: \<^verbatim>\<open>return self->entry();\<close>. Calling through a \<^verbatim>\<open>NULL\<close>
  pointer is undefined (\<open>None\<close>).\<close>

definition CompiledCode_call :: "os \<Rightarrow> CompiledCode \<Rightarrow> obj \<Rightarrow> obj option \<Rightarrow> pyresult option" where
  "CompiledCode_call y self args kw =
     (case entry self of None \<Rightarrow> None | Some base \<Rightarrow> Some (native_code y base))"

text \<open>The step of the construction at which the operating system refuses, if any.\<close>

datatype step = Open | Length | Map

definition failing_step :: "os \<Rightarrow> string \<Rightarrow> step option" where
  "failing_step y path =
     (case sys_open y path of
        Inl e \<Rightarrow> Some Open
      | Inr d \<Rightarrow>
          (case sys_lseek_end y d of
             Inl e \<Rightarrow> Some Length
           | Inr slen \<Rightarrow>
               (case sys_lseek_set y d of
                  Some e \<Rightarrow> Some Length
                | None \<Rightarrow>
                    (case sys_mmap y slen d of
                       Inl e \<Rightarrow> Some Map
                     | Inr base \<Rightarrow> None))))"

definition exc_filename :: "pyexc \<Rightarrow> string option" where
  "exc_filename e = (case e of IOErrorWithFilename en path \<Rightarrow> Some path | _ \<Rightarrow> None)"

section \<open>Order of events\<close>

text \<open>\<open>occurs_before a b tr\<close>: \<open>b\<close> occurs in \<open>tr\<close> after the first \<open>a\<close>.\<close>

fun occurs_before :: "event \<Rightarrow> event \<Rightarrow> event list \<Rightarrow> bool" where
  "occurs_before a b [] = False"
| "occurs_before a b (e # es) = (if e = a then b \<in> set es else occurs_before a b es)"

section \<open>Concrete inputs\<close>

text \<open>
  A host and an operating system to run the definitions on. Object 1 is a native function
  taking no argument, 2 a native function taking one, 3 a callable object that is neither
  native nor interpreted, 4 an interpreted function of two parameters, 5 a method bound to
  the instance 6 with the function 7, which has three parameters and one default value;
  20 and 21 are two string objects with the text \<open>a\<close>.
\<close>

definition example_function :: funcobj where
  "example_function =
     \<lparr>func_code = \<lparr>co_argcount = 2, co_kwonlyargcount = 0, co_flags = 0x43\<rparr>,
      func_globals = 50, func_defaults = None, func_kwdefaults = None, func_closure = None\<rparr>"

definition example_function_with_default :: funcobj where
  "example_function_with_default =
     \<lparr>func_code = \<lparr>co_argcount = 3, co_kwonlyargcount = 0, co_flags = 0x43\<rparr>,
      func_globals = 50, func_defaults = Some [9], func_kwdefaults = None,
      func_closure = None\<rparr>"

definition example_host :: host where
  "example_host = \<lparr>
     ob_type = (\<lambda>ob.
       if ob = 1 then CFunctionType ''getpid'' METH_NOARGS None
       else if ob = 2 then CFunctionType ''len'' METH_O None
       else if ob = 4 then FunctionType example_function
       else if ob = 5 then MethodType (Some 6) 7
       else if ob = 7 then FunctionType example_function_with_default
       else if ob = 20 \<or> ob = 21 then UnicodeType ''a''
       else OtherType),
     meth_call = (\<lambda>func self arg. Inr 100),
     PyCFunction_Call = (\<lambda>func args kw. Inr 101),
     PyObject_Call = (\<lambda>func args kw. Inr 102),
     PyFrame_New = (\<lambda>co globals. None),
     PyEval_EvalFrameEx = (\<lambda>f. case f_localsplus f of [] \<Rightarrow> Inr 0 | a # _ \<Rightarrow> Inr a),
     PyEval_EvalCodeEx = (\<lambda>co globals args kws defs kwdefs closure.
       case args of _ # b # _ \<Rightarrow> Inr b | _ \<Rightarrow> Inl (Raised 0)),
     PyTuple_New = (\<lambda>n. None),
     PyDict_New = None,
     PyDict_Copy = (\<lambda>d. None),
     PyDict_SetItem = (\<lambda>d k v. None),
     PyEval_GetFuncName = (\<lambda>func. ''widget''),
     PyEval_GetFuncDesc = (\<lambda>func. '' object'')\<rparr>"

definition example_state :: "obj list \<Rightarrow> rt" where
  "example_state m = \<lparr>mem = m, ob_refcnt = (\<lambda>ob. 1), recursion_depth = 0, trace = []\<rparr>"

definition example_frame :: frame where
  "example_frame =
     \<lparr>f_code = \<lparr>co_argcount = 2, co_kwonlyargcount = 0, co_flags = 0x43\<rparr>, f_globals = 50,
      f_localsplus = [11, 12]\<rparr>"

text \<open>
  The file \<open>/tmp/blob\<close> exists and has 64 bytes; \<open>/tmp/big\<close> exists, and mapping it is
  refused with \<^verbatim>\<open>ENOMEM\<close> (12); any other path does not exist (\<^verbatim>\<open>ENOENT\<close>, 2). The
  arguments object 1 names \<open>/tmp/blob\<close>, 2 names \<open>/tmp/big\<close>, any other \<open>/nonexistent\<close>.
\<close>

definition example_os :: os where
  "example_os = \<lparr>
     parse_args = (\<lambda>args kwds.
       Inr (70, if args = 1 then ''/tmp/blob'' else if args = 2 then ''/tmp/big''
                else ''/nonexistent'', 71)),
     tp_alloc = None,
     sys_open = (\<lambda>path. if path = ''/tmp/blob'' then Inr 3 else if path = ''/tmp/big'' then Inr 4
                          else Inl 2),
     sys_lseek_end = (\<lambda>d. if d = 3 then Inr 64 else Inr 1000000),
     sys_lseek_set = (\<lambda>d. None),
     sys_mmap = (\<lambda>l d. if d = 3 then Inr 4096 else Inl 12),
     sys_close = (\<lambda>d. None),
     native_code = (\<lambda>base. Inr 200)\<rparr>"

definition example_world :: world where
  "example_world = \<lparr>w_refcnt = (\<lambda>ob. 1), w_errno = 0, w_open = [0, 1, 2], w_mapped = []\<rparr>"

section \<open>The closing loop\<close>

lemma drain_not_above: "p \<le> pfunc \<Longrightarrow> drain p pfunc s = Some (p, s)"
  by (simp add: drain.simps)

lemma drain_above: "pfunc < p \<Longrightarrow> drain p pfunc s = None"
proof (induction p pfunc s rule: drain.induct)
  case (1 p pfunc s)
  show ?case
  proof (cases "EXT_POP s p")
    case None
    with "1.prems" show ?thesis by (simp add: drain.simps)
  next
    case (Some a)
    obtain w p' where a: "a = (w, p')" by (cases a)
    with Some have p': "p' = p + 1" by (auto simp: EXT_POP_def split: if_splits)
    have "drain p' pfunc (Py_DECREF w s) = None"
      using "1.IH" [OF "1.prems" Some [unfolded a]] "1.prems" p' by simp
    with "1.prems" Some a show ?thesis by (simp add: drain.simps)
  qed
qed

lemma drain_Some: "drain p pfunc s = Some (p', s') \<Longrightarrow> p \<le> pfunc \<and> p' = p \<and> s' = s"
  by (cases "p \<le> pfunc") (simp_all add: drain_not_above drain_above)

section \<open>Native functions with a restricted calling convention\<close>

lemma flag_union_nonzero:
  "(flags :: 32 word) AND (a OR b) \<noteq> 0 \<longleftrightarrow> flags AND a \<noteq> 0 \<or> flags AND b \<noteq> 0"
  by (simp add: bit.conj_disj_distrib or_eq_0_iff)

lemma fmt_d_1: "fmt_d 1 = ''1''"
  by (simp add: fmt_d_def fmt_nat.simps digit_char_def)

lemma call_native_err:
  assumes callee: "ob_type h func = CFunctionType name flags self"
      and restricted: "flags AND METH_NOARGS \<noteq> 0 \<or> flags AND METH_O \<noteq> 0"
      and no0: "na = 0 \<longrightarrow> flags AND METH_NOARGS = 0"
      and no1: "na = 1 \<longrightarrow> flags AND METH_O = 0"
  shows "call_native h func p na s = Some (Inl (err_args h func flags (int na)), p, s)"
  using assms
  by (auto simp add: call_native_def PyCFunction_GET_FLAGS_def flag_union_nonzero Let_def)

lemma call_function_native:
  assumes nk: "drop_bit 8 oparg AND 0xff = 0"
      and na: "unat (oparg AND 0xff) = na"
      and slot: "pp_stack + na < length (mem s)"
      and callee: "ob_type h (mem s ! (pp_stack + na)) = CFunctionType name flags self"
  shows "call_function h s pp_stack oparg =
           (case call_native h (mem s ! (pp_stack + na)) pp_stack na s of
              None \<Rightarrow> None
            | Some (x, p, s') \<Rightarrow>
                (case drain p (pp_stack + na) s' of
                   None \<Rightarrow> None
                 | Some (p', s'') \<Rightarrow> Some (x, p', s'')))"
  using assms by (simp add: call_function_def PyCFunction_Check_def Let_def split: option.splits)

text \<open>
  Claim C7. A native function whose flags declare \<^verbatim>\<open>METH_NOARGS\<close>, called without keyword
  arguments and with \<open>na \<noteq> 0\<close> positional arguments, makes the bridge fail with the
  \<^verbatim>\<open>TypeError\<close> of \<^verbatim>\<open>err_args\<close>: the message is the function's name (its first 200
  characters), the words ``takes no arguments'' and the count \<open>na\<close> in decimal; for
  \<open>na = 1\<close> it reads ``(1 given)''. \<^verbatim>\<open>METH_O\<close> is tested second, so a flag word that
  carries both bits, which CPython does not allow, is left out for \<open>na = 1\<close>.
\<close>

theorem call_function_noargs_mismatch:
  assumes nk: "drop_bit 8 oparg AND 0xff = 0"
      and na: "unat (oparg AND 0xff) = na" "na \<noteq> 0"
      and slot: "pp_stack + na < length (mem s)"
      and callee: "ob_type h (mem s ! (pp_stack + na)) = CFunctionType name flags self"
      and noargs: "flags AND METH_NOARGS \<noteq> 0"
      and one: "na = 1 \<longrightarrow> flags AND METH_O = 0"
  shows "call_function h s pp_stack oparg =
           Some (Inl (TypeError (take 200 name @ ''() takes no arguments ('' @ fmt_d (int na)
                   @ '' given)'')), pp_stack, s) \<and>
         (na = 1 \<longrightarrow>
            call_function h s pp_stack oparg =
              Some (Inl (TypeError (take 200 name @ ''() takes no arguments (1 given)'')),
                    pp_stack, s))"
proof -
  have native: "call_native h (mem s ! (pp_stack + na)) pp_stack na s =
          Some (Inl (err_args h (mem s ! (pp_stack + na)) flags (int na)), pp_stack, s)"
    using callee noargs one na(2) by (intro call_native_err) auto
  have msg: "err_args h (mem s ! (pp_stack + na)) flags (int na) =
          TypeError (take 200 name @ ''() takes no arguments ('' @ fmt_d (int na) @ '' given)'')"
    using callee noargs by (simp add: err_args_def ml_name_def)
  have "call_function h s pp_stack oparg =
          Some (Inl (TypeError (take 200 name @ ''() takes no arguments ('' @ fmt_d (int na)
                   @ '' given)'')), pp_stack, s)"
    by (simp add: call_function_native [OF nk na(1) slot callee] native msg drain_not_above)
  then show ?thesis by (auto simp add: fmt_d_1)
qed

theorem call_function_noargs_mismatch_witness:
  "ob_type example_host (mem (example_state [30, 1]) ! (0 + 1)) =
     CFunctionType ''getpid'' METH_NOARGS None \<and>
   call_function example_host (example_state [30, 1]) 0 1 =
     Some (Inl (TypeError ''getpid() takes no arguments (1 given)''), 0, example_state [30, 1])"
proof -
  have nk: "drop_bit 8 (1 :: 32 word) AND 0xff = 0" by simp
  have na: "unat ((1 :: 32 word) AND 0xff) = 1" "(1 :: nat) \<noteq> 0" by simp_all
  have slot: "0 + 1 < length (mem (example_state [30, 1]))"
    by (simp add: example_state_def)
  have callee: "ob_type example_host (mem (example_state [30, 1]) ! (0 + 1)) =
                  CFunctionType ''getpid'' METH_NOARGS None"
    by (simp add: example_host_def example_state_def)
  have noargs: "METH_NOARGS AND METH_NOARGS \<noteq> 0" by (simp add: METH_NOARGS_def)
  have one: "(1 :: nat) = 1 \<longrightarrow> METH_NOARGS AND METH_O = 0"
    by (simp add: METH_NOARGS_def METH_O_def)
  from call_function_noargs_mismatch [OF nk na slot callee noargs one] callee
  show ?thesis by (simp add: fmt_d_1)
qed

text \<open>
  Claim C10. A native function whose flags declare \<^verbatim>\<open>METH_O\<close> and not
  \<^verbatim>\<open>METH_NOARGS\<close>, called without keyword arguments and with \<open>na \<noteq> 1\<close> positional
  arguments, makes the bridge fail with a \<^verbatim>\<open>TypeError\<close> whose message is the function's
  name, the words ``takes exactly one argument'' and the count \<open>na\<close> in decimal.
\<close>

theorem call_function_one_arg_mismatch:
  assumes nk: "drop_bit 8 oparg AND 0xff = 0"
      and na: "unat (oparg AND 0xff) = na" "na \<noteq> 1"
      and slot: "pp_stack + na < length (mem s)"
      and callee: "ob_type h (mem s ! (pp_stack + na)) = CFunctionType name flags self"
      and one_arg: "flags AND METH_O \<noteq> 0"
      and not_noargs: "flags AND METH_NOARGS = 0"
  shows "call_function h s pp_stack oparg =
           Some (Inl (TypeError (take 200 name @ ''() takes exactly one argument (''
                   @ fmt_d (int na) @ '' given)'')), pp_stack, s)"
proof -
  have native: "call_native h (mem s ! (pp_stack + na)) pp_stack na s =
          Some (Inl (err_args h (mem s ! (pp_stack + na)) flags (int na)), pp_stack, s)"
    using callee one_arg not_noargs na(2) by (intro call_native_err) auto
  have msg: "err_args h (mem s ! (pp_stack + na)) flags (int na) =
          TypeError (take 200 name @ ''() takes exactly one argument ('' @ fmt_d (int na)
            @ '' given)'')"
    using callee not_noargs by (simp add: err_args_def ml_name_def)
  show ?thesis
    by (simp add: call_function_native [OF nk na(1) slot callee] native msg drain_not_above)
qed

theorem call_function_one_arg_mismatch_witness:
  "ob_type example_host (mem (example_state [31, 30, 2]) ! (0 + 2)) =
     CFunctionType ''len'' METH_O None \<and>
   call_function example_host (example_state [31, 30, 2]) 0 2 =
     Some (Inl (TypeError ''len() takes exactly one argument (2 given)''), 0,
           example_state [31, 30, 2])"
proof -
  have nk: "drop_bit 8 (2 :: 32 word) AND 0xff = 0" by simp
  have na: "unat ((2 :: 32 word) AND 0xff) = 2" "(2 :: nat) \<noteq> 1" by simp_all
  have slot: "0 + 2 < length (mem (example_state [31, 30, 2]))"
    by (simp add: example_state_def)
  have callee: "ob_type example_host (mem (example_state [31, 30, 2]) ! (0 + 2)) =
                  CFunctionType ''len'' METH_O None"
    by (simp add: example_host_def example_state_def)
  have one_arg: "METH_O AND METH_O \<noteq> 0" by (simp add: METH_O_def)
  have not_noargs: "METH_O AND METH_NOARGS = 0" by (simp add: METH_NOARGS_def METH_O_def)
  have two: "fmt_d (int 2) = ''2''"
    by (simp add: fmt_d_def fmt_nat.simps digit_char_def)
  from call_function_one_arg_mismatch [OF nk na slot callee one_arg not_noargs] callee two
  show ?thesis by simp
qed

section \<open>Draining the argument frame\<close>

text \<open>
  Claim C1 asks that every one of the \<open>n + 1\<close> slots is released when the bridge
  returns and that the stack pointer ends one past the callee slot, at
  \<open>pp_stack + n + 1\<close>. The closing loop tests \<^verbatim>\<open>pp_stack > pfunc\<close> while \<^verbatim>\<open>EXT_POP\<close>
  moves the pointer up, so it runs only when the pointer is already past the callee slot,
  and then never stops inside the stack. Whenever the bridge returns, its stack pointer is
  at or below the callee slot: the callee slot is never popped.
\<close>

theorem call_function_never_passes_callee:
  assumes "call_function h s pp_stack oparg = Some (x, p', s')"
  shows "p' \<le> pp_stack + (unat (oparg AND 0xff) + 2 * unat (drop_bit 8 oparg AND 0xff))"
  using assms
  by (auto simp add: call_function_def Let_def split: if_splits option.splits dest: drain_Some)

theorem call_function_never_passes_callee_witness:
  "call_function example_host (example_state [1]) 0 0 = Some (Inr 100, 0, example_state [1]) \<and>
   (0 :: nat) \<le> 0 + (unat ((0 :: 32 word) AND 0xff) + 2 * unat (drop_bit 8 (0 :: 32 word) AND 0xff))"
proof -
  have run: "call_function example_host (example_state [1]) 0 0 =
               Some (Inr 100, 0, example_state [1])"
    by (simp add: call_function_def call_native_def PyCFunction_Check_def
          PyCFunction_GET_FLAGS_def PyCFunction_GET_SELF_def example_host_def
          example_state_def METH_NOARGS_def METH_O_def drain_not_above)
  from call_function_never_passes_callee [OF run] run show ?thesis by simp
qed


section \<open>The fast path for interpreted functions\<close>

lemma Py_INCREF_fields [simp]:
  "mem (Py_INCREF ob s) = mem s"
  "trace (Py_INCREF ob s) = trace s"
  "recursion_depth (Py_INCREF ob s) = recursion_depth s"
  "ob_refcnt (Py_INCREF ob s) x = ob_refcnt s x + (if x = ob then 1 else 0)"
  by (simp_all add: Py_INCREF_def)

lemma Py_DECREF_fields [simp]:
  "mem (Py_DECREF ob s) = mem s"
  "trace (Py_DECREF ob s) = trace s"
  "recursion_depth (Py_DECREF ob s) = recursion_depth s"
  "ob_refcnt (Py_DECREF ob s) x = ob_refcnt s x - (if x = ob then 1 else 0)"
  by (simp_all add: Py_DECREF_def)

lemma log_event_fields [simp]:
  "mem (log_event e s) = mem s"
  "trace (log_event e s) = trace s @ [e]"
  "recursion_depth (log_event e s) = recursion_depth s"
  "ob_refcnt (log_event e s) = ob_refcnt s"
  by (simp_all add: log_event_def)

lemma fold_Py_INCREF_fields [simp]:
  "mem (fold Py_INCREF xs s) = mem s"
  "trace (fold Py_INCREF xs s) = trace s"
  "recursion_depth (fold Py_INCREF xs s) = recursion_depth s"
  by (induction xs arbitrary: s) simp_all


lemma fold_Py_DECREF_fields [simp]:
  "mem (fold Py_DECREF xs s) = mem s"
  "trace (fold Py_DECREF xs s) = trace s"
  "recursion_depth (fold Py_DECREF xs s) = recursion_depth s"
  by (induction xs arbitrary: s) simp_all

lemma fold_Py_DECREF_refcnt:
  "ob_refcnt (fold Py_DECREF xs s) x = ob_refcnt s x - int (count_list xs x)"
  by (induction xs arbitrary: s) simp_all

lemma Py_DECREF_frame_fields [simp]:
  "mem (Py_DECREF_frame f s) = mem s"
  "trace (Py_DECREF_frame f s) = trace s @ [DecrefFrame f]"
  "recursion_depth (Py_DECREF_frame f s) = recursion_depth s"
  "ob_refcnt (Py_DECREF_frame f s) x = ob_refcnt s x - int (count_list (f_localsplus f) x)"
  by (simp_all add: Py_DECREF_frame_def fold_Py_DECREF_refcnt)

lemma fast_copy_args_run:
  assumes "i < n \<longrightarrow> hi < length (mem s)"
  shows "fast_copy_args i n hi f s =
           Some (f\<lparr>f_localsplus := f_localsplus f @ map (\<lambda>j. mem s ! (hi - j)) [i..<n]\<rparr>,
                 fold Py_INCREF (map (\<lambda>j. mem s ! (hi - j)) [i..<n]) s)"
  using assms
proof (induction i n hi f s rule: fast_copy_args.induct)
  case (1 i n hi f s)
  show ?case
  proof (cases "i < n")
    case False
    then show ?thesis by (simp add: fast_copy_args.simps)
  next
    case True
    with "1.prems" have hi: "hi < length (mem s)" by simp
    then have rd: "hi - i < length (mem s)" by simp
    have step: "fast_copy_args i n hi f s =
        fast_copy_args (i + 1) n hi
          (f\<lparr>f_localsplus := f_localsplus f @ [mem s ! (hi - i)]\<rparr>)
          (Py_INCREF (mem s ! (hi - i)) s)"
      using True rd by (subst fast_copy_args.simps) simp
    have ih: "fast_copy_args (i + 1) n hi
          (f\<lparr>f_localsplus := f_localsplus f @ [mem s ! (hi - i)]\<rparr>)
          (Py_INCREF (mem s ! (hi - i)) s) =
        Some (f\<lparr>f_localsplus := (f_localsplus f @ [mem s ! (hi - i)])
                   @ map (\<lambda>j. mem s ! (hi - j)) [i + 1..<n]\<rparr>,
              fold Py_INCREF (map (\<lambda>j. mem s ! (hi - j)) [i + 1..<n])
                (Py_INCREF (mem s ! (hi - i)) s))"
      using "1.IH" [OF True rd] hi by simp
    have upt: "[i..<n] = i # [i + 1..<n]" using True by (simp add: upt_conv_Cons)
    show ?thesis unfolding step ih upt by simp
  qed
qed

lemma slots_in_declared_order:
  assumes "p + n \<le> length m"
  shows "map (\<lambda>j. m ! (p + n - 1 - j)) [0..<n] = rev (take n (drop p m))"
proof (rule nth_equalityI)
  show "length (map (\<lambda>j. m ! (p + n - 1 - j)) [0..<n]) = length (rev (take n (drop p m)))"
    using assms by simp
next
  fix i assume "i < length (map (\<lambda>j. m ! (p + n - 1 - j)) [0..<n])"
  then have i: "i < n" by simp
  have "rev (take n (drop p m)) ! i = take n (drop p m) ! (n - Suc i)"
    using i assms by (simp add: rev_nth)
  also have "\<dots> = m ! (p + (n - Suc i))" using i assms by simp
  also have "p + (n - Suc i) = p + n - 1 - i" using i by simp
  finally show "map (\<lambda>j. m ! (p + n - 1 - j)) [0..<n] ! i = rev (take n (drop p m)) ! i"
    using i by simp
qed

text \<open>The copy loop as \<^verbatim>\<open>fast_function\<close> starts it, on a stack with the \<open>n\<close> argument slots.\<close>

lemma fast_copy_args_declared_order:
  assumes slots: "p + n \<le> length (mem s)"
  shows "fast_copy_args 0 n (p + n - 1) \<lparr>f_code = co, f_globals = g, f_localsplus = []\<rparr> s =
           Some (\<lparr>f_code = co, f_globals = g, f_localsplus = rev (take n (drop p (mem s)))\<rparr>,
                 fold Py_INCREF (rev (take n (drop p (mem s)))) s)"
proof -
  have rng: "0 < n \<longrightarrow> p + n - 1 < length (mem s)" using slots by auto
  show ?thesis
    using fast_copy_args_run [OF rng] slots_in_declared_order [OF slots] by simp
qed

lemma fast_function_fast_path:
  assumes elig: "fast_path_eligible fn n nk"
      and frame_ok: "PyFrame_New h (func_code fn) (func_globals fn) = None"
      and slots: "p + n \<le> length (mem s)"
  shows "fast_function h fn p n na nk s =
           (let f = \<lparr>f_code = func_code fn, f_globals = func_globals fn,
                     f_localsplus = rev (take n (drop p (mem s)))\<rparr>;
                s1 = fold Py_INCREF (rev (take n (drop p (mem s)))) s
            in Some (PyEval_EvalFrameEx h f,
                 log_event RecursionDec
                   ((Py_DECREF_frame f
                      (log_event RecursionInc
                         ((log_event (EvalFrameEx f) s1)
                            \<lparr>recursion_depth := recursion_depth s1 + 1\<rparr>)))
                      \<lparr>recursion_depth := recursion_depth s1\<rparr>)))"
proof -
  have copy: "fast_copy_args 0 n (p + n - Suc 0)
                \<lparr>f_code = func_code fn, f_globals = func_globals fn, f_localsplus = []\<rparr> s =
              Some (\<lparr>f_code = func_code fn, f_globals = func_globals fn,
                       f_localsplus = rev (take n (drop p (mem s)))\<rparr>,
                    fold Py_INCREF (rev (take n (drop p (mem s)))) s)"
    using fast_copy_args_declared_order [OF slots] by simp
  show ?thesis
    using elig frame_ok by (simp add: fast_function_def Let_def copy)
qed


text \<open>
  Claim C4 says that the recursion-depth counter is incremented before the nested frame is
  executed. The fast path calls \<^verbatim>\<open>PyEval_EvalFrameEx\<close> first; only after it has returned
  does it increment the counter, release the frame and decrement the counter. What holds:
  on every fast-path invocation these four actions happen in this order, the increment and
  the decrement bracket the release of the frame, and the counter is back at its entry
  value when the fast path returns.
\<close>

theorem fast_function_recursion_depth_order:
  assumes elig: "fast_path_eligible fn n nk"
      and frame_ok: "PyFrame_New h (func_code fn) (func_globals fn) = None"
      and slots: "p + n \<le> length (mem s)"
  shows "\<exists>s'. fast_function h fn p n na nk s =
                 Some (PyEval_EvalFrameEx h
                         \<lparr>f_code = func_code fn, f_globals = func_globals fn,
                            f_localsplus = rev (take n (drop p (mem s)))\<rparr>, s') \<and>
              trace s' = trace s @
                [EvalFrameEx \<lparr>f_code = func_code fn, f_globals = func_globals fn,
                               f_localsplus = rev (take n (drop p (mem s)))\<rparr>,
                 RecursionInc,
                 DecrefFrame \<lparr>f_code = func_code fn, f_globals = func_globals fn,
                               f_localsplus = rev (take n (drop p (mem s)))\<rparr>,
                 RecursionDec] \<and>
              recursion_depth s' = recursion_depth s"
  by (simp add: fast_function_fast_path [OF elig frame_ok slots] Let_def)

lemma example_fast_path:
  "fast_path_eligible example_function 2 0"
  "PyFrame_New example_host (func_code example_function) (func_globals example_function) = None"
  "0 + 2 \<le> length (mem (example_state [12, 11, 4]))"
  by (simp_all add: fast_path_eligible_def example_function_def CO_OPTIMIZED_def
        CO_NEWLOCALS_def CO_NOFREE_def example_host_def example_state_def)

lemma example_frame_filled:
  "\<lparr>f_code = func_code example_function, f_globals = func_globals example_function,
     f_localsplus = rev (take 2 (drop 0 (mem (example_state [12, 11, 4]))))\<rparr> = example_frame"
  by (simp add: example_frame_def example_function_def example_state_def)

lemma example_frame_result: "PyEval_EvalFrameEx example_host example_frame = Inr 11"
  by (simp add: example_host_def example_frame_def)



lemma example_fast_run:
  "fast_function example_host example_function 0 2 2 0 (example_state [12, 11, 4]) \<noteq> None"
  "fst (the (fast_function example_host example_function 0 2 2 0 (example_state [12, 11, 4]))) =
     Inr 11"
  "trace (snd (the (fast_function example_host example_function 0 2 2 0
                      (example_state [12, 11, 4])))) =
     [EvalFrameEx example_frame, RecursionInc, DecrefFrame example_frame, RecursionDec]"
  unfolding fast_function_fast_path [OF example_fast_path] example_frame_filled
  by (simp_all add: Let_def example_frame_result example_state_def)


theorem fast_function_recursion_depth_order_witness:
  "\<exists>s'. fast_function example_host example_function 0 2 2 0 (example_state [12, 11, 4]) =
           Some (Inr 11, s') \<and>
        trace s' = [EvalFrameEx example_frame, RecursionInc, DecrefFrame example_frame,
                    RecursionDec] \<and>
        recursion_depth s' = 0"
proof -
  from fast_function_recursion_depth_order [OF example_fast_path, of 2]
  show ?thesis unfolding example_frame_filled example_frame_result
    by (simp add: example_state_def)
qed

text \<open>
  Counterexample to claim C4 as stated: in the same run the increment of the counter
  does not come before the execution of the frame; it comes after it.
\<close>

theorem fast_function_recursion_depth_counterexample:
  "\<not> occurs_before RecursionInc (EvalFrameEx example_frame)
       (trace (snd (the (fast_function example_host example_function 0 2 2 0
                           (example_state [12, 11, 4]))))) \<and>
   occurs_before (EvalFrameEx example_frame) RecursionInc
       (trace (snd (the (fast_function example_host example_function 0 2 2 0
                           (example_state [12, 11, 4])))))"
  unfolding example_fast_run by simp

section \<open>Keyword arguments and bound methods\<close>

text \<open>
  Claim C2 asks for two things when a keyword is given twice: the error that names the
  callable and the key, and the release of all \<open>n + 1\<close> slots. For a callable that is
  neither native nor interpreted, called with two keyword pairs whose keys are equal (the
  stack holds, from its top, the later pair's value and key, the earlier pair's value and
  key, and the callee), \<^verbatim>\<open>update_keyword_args\<close> raises that error and the four slots of
  the pairs are popped and released, but the bridge returns with its stack pointer on the
  callee slot, slot 4, which it neither pops nor releases: the only changes to the callee's
  count are the \<^verbatim>\<open>Py_INCREF(func)\<close> and \<^verbatim>\<open>Py_DECREF(func)\<close> around the call.
\<close>

theorem duplicate_keyword_leaves_callee_slot:
  assumes callee: "ob_type h c = OtherType"
      and dup: "key_eq h k2 k1"
      and dict_ok: "PyDict_New h = None" "PyDict_SetItem h [] k2 v2 = None"
      and stack: "mem s = [v2, k2, v1, k1, c]"
  shows "call_function h s 0 0x200 =
           Some (Inl (multiple_values_error h c k1), 4,
                 Py_DECREF c
                   (log_event (DecrefDict [(k2, v2)])
                      (Py_DECREF v1 (Py_DECREF k1 (Py_DECREF v2 (Py_DECREF k2
                         (Py_INCREF c s)))))))"
proof -
  have kw: "update_keyword_args h None 2 0 c (Py_INCREF c s) =
              Some (Inl (multiple_values_error h c k1), 4,
                    log_event (DecrefDict [(k2, v2)])
                      (Py_DECREF v1 (Py_DECREF k1 (Py_DECREF v2 (Py_DECREF k2
                         (Py_INCREF c s))))))"
    using dup dict_ok stack
    by (simp add: update_keyword_args_def numeral_2_eq_2 EXT_POP_def PyDict_GetItem_def)
  have dc: "do_call h c 0 0 2 (Py_INCREF c s) =
              Some (Inl (multiple_values_error h c k1), 4,
                    log_event (DecrefDict [(k2, v2)])
                      (Py_DECREF v1 (Py_DECREF k1 (Py_DECREF v2 (Py_DECREF k2
                         (Py_INCREF c s))))))"
    by (simp add: do_call_def kw)
  have gen: "call_general h c 0 4 0 2 4 s =
              Some (Inl (multiple_values_error h c k1), 4,
                 Py_DECREF c
                   (log_event (DecrefDict [(k2, v2)])
                      (Py_DECREF v1 (Py_DECREF k1 (Py_DECREF v2 (Py_DECREF k2
                         (Py_INCREF c s)))))))"
    using callee by (simp add: call_general_def PyMethod_Check_def Let_def dc)
  have opa: "unat ((0x200 :: 32 word) AND 0xff) = 0" by simp
  have opk: "unat (drop_bit 8 (0x200 :: 32 word) AND 0xff) = 2" by simp
  show ?thesis
    using callee stack
    by (simp add: call_function_def opa opk PyCFunction_Check_def Let_def gen drain_not_above)
qed

theorem duplicate_keyword_leaves_callee_slot_witness:
  "\<exists>s'. call_function example_host (example_state [31, 21, 30, 20, 3]) 0 0x200 =
           Some (Inl (TypeError (''widget object got multiple values for keyword argument ''
                   @ [CHR 0x27] @ ''a'' @ [CHR 0x27])), 4, s') \<and>
        ob_refcnt s' 3 = ob_refcnt (example_state [31, 21, 30, 20, 3]) 3 \<and>
        mem s' ! 4 = 3"
proof -
  have callee: "ob_type example_host 3 = OtherType" by (simp add: example_host_def)
  have dup: "key_eq example_host 21 20" by (simp add: key_eq_def example_host_def)
  have dict_ok: "PyDict_New example_host = None" "PyDict_SetItem example_host [] 21 31 = None"
    by (simp_all add: example_host_def)
  have stack: "mem (example_state [31, 21, 30, 20, 3]) = [31, 21, 30, 20, 3]"
    by (simp add: example_state_def)
  have msg: "multiple_values_error example_host 3 20 =
               TypeError (''widget object got multiple values for keyword argument ''
                   @ [CHR 0x27] @ ''a'' @ [CHR 0x27])"
    by (simp add: multiple_values_error_def fmt_U_def example_host_def)
  from duplicate_keyword_leaves_callee_slot [OF callee dup dict_ok stack]
  show ?thesis unfolding msg by (simp add: stack)
qed

lemma callee_slot_as_first_argument:
  assumes "p + na < length m"
  shows "rev (take (Suc na) (drop p (m[p + na := i]))) = i # rev (take na (drop p m))"
proof -
  have d: "drop p (m[p + na := i]) = (drop p m)[na := i]"
    by (simp add: drop_update_swap)
  have l: "na < length ((drop p m)[na := i])" using assms by simp
  have "take (Suc na) ((drop p m)[na := i]) = take na ((drop p m)[na := i]) @ [(drop p m)[na := i] ! na]"
    using l by (rule take_Suc_conv_app_nth)
  also have "\<dots> = take na (drop p m) @ [i]" using assms by simp
  finally show ?thesis by (simp add: d)
qed

text \<open>
  Where the underlying function qualifies for the fast path, the frame's locals are the
  instance followed by the arguments in declared order.
\<close>

lemma bound_method_fast_path:
  assumes nk: "drop_bit 8 oparg AND 0xff = 0"
      and na: "unat (oparg AND 0xff) = na"
      and slot: "pp_stack + na < length (mem s)"
      and meth: "ob_type h (mem s ! (pp_stack + na)) = MethodType (Some i) g"
      and func: "ob_type h g = FunctionType fn"
      and elig: "fast_path_eligible fn (Suc na) 0"
      and frame_ok: "PyFrame_New h (func_code fn) (func_globals fn) = None"
  shows "\<exists>s'. call_function h s pp_stack oparg =
                 Some (PyEval_EvalFrameEx h
                         \<lparr>f_code = func_code fn, f_globals = func_globals fn,
                            f_localsplus = i # rev (take na (drop pp_stack (mem s)))\<rparr>,
                       pp_stack, s')"
proof -
  let ?s1 = "(Py_DECREF (mem s ! (pp_stack + na)) (Py_INCREF g (Py_INCREF i s)))
               \<lparr>mem := (mem s)[pp_stack + na := i]\<rparr>"
  have slots: "pp_stack + Suc na \<le> length (mem ?s1)" using slot by simp
  have loc: "rev (take (Suc na) (drop pp_stack (mem ?s1))) =
               i # rev (take na (drop pp_stack (mem s)))"
    using callee_slot_as_first_argument [OF slot] by simp
  obtain s2 where ff: "fast_function h fn pp_stack (Suc na) (Suc na) 0 ?s1 =
      Some (PyEval_EvalFrameEx h
              \<lparr>f_code = func_code fn, f_globals = func_globals fn,
                 f_localsplus = i # rev (take na (drop pp_stack (mem s)))\<rparr>, s2)"
    unfolding fast_function_fast_path [OF elig frame_ok slots] loc Let_def by blast
  have gen: "call_general h (mem s ! (pp_stack + na)) pp_stack (pp_stack + na) na 0 na s =
      Some (PyEval_EvalFrameEx h
              \<lparr>f_code = func_code fn, f_globals = func_globals fn,
                 f_localsplus = i # rev (take na (drop pp_stack (mem s)))\<rparr>,
            pp_stack, Py_DECREF g s2)"
    using meth func
    by (simp add: call_general_def PyMethod_Check_def PyMethod_GET_SELF_def
          PyMethod_GET_FUNCTION_def Let_def ff)
  have nk0: "unat (drop_bit 8 oparg AND 0xff) = 0" using nk by simp
  show ?thesis
    using meth slot
    by (simp add: call_function_def na nk0 PyCFunction_Check_def Let_def gen drain_not_above)
qed

text \<open>
  Claim C8 says that a call through a method \<open>m\<close> bound to the instance \<open>i\<close> with the
  function \<open>g\<close> gives what \<open>g\<close> gives for \<open>i\<close> followed by the arguments. The bridge puts
  \<open>i\<close> in the callee slot, retains \<open>i\<close> and \<open>g\<close>, releases \<open>m\<close> and counts one more
  positional argument. When \<open>g\<close> is an interpreted function that does not qualify for the
  fast path, \<^verbatim>\<open>fast_function\<close> hands \<^verbatim>\<open>PyEval_EvalCodeEx\<close> the address of the callee
  slot as the array of positional arguments. The arguments lie below that address, the
  host reads the array upwards: with two arguments \<open>a1\<close>, \<open>a2\<close> on the stack and the
  slots \<open>x\<close>, \<open>y\<close> of the caller above the callee slot, \<open>g\<close> is invoked with
  \<open>[i, x, y]\<close>, not with \<open>[i, a1, a2]\<close>.
\<close>

theorem bound_method_general_path_arguments:
  assumes meth: "ob_type h m = MethodType (Some i) g"
      and func: "ob_type h g = FunctionType fn"
      and general: "\<not> fast_path_eligible fn 3 0"
      and stack: "mem s = [a2, a1, m, x, y]"
  shows "call_function h s 0 2 =
           Some (PyEval_EvalCodeEx h (func_code fn) (func_globals fn) [i, x, y] []
                   (case func_defaults fn of None \<Rightarrow> [] | Some ds \<Rightarrow> ds)
                   (func_kwdefaults fn) (func_closure fn),
                 0,
                 Py_DECREF g
                   ((Py_DECREF m (Py_INCREF g (Py_INCREF i s)))\<lparr>mem := [a2, a1, i, x, y]\<rparr>))"
proof -
  have ff: "fast_function h fn 0 3 3 0
              ((Py_DECREF m (Py_INCREF g (Py_INCREF i s)))\<lparr>mem := [a2, a1, i, x, y]\<rparr>) =
            Some (PyEval_EvalCodeEx h (func_code fn) (func_globals fn) [i, x, y] []
                    (case func_defaults fn of None \<Rightarrow> [] | Some ds \<Rightarrow> ds)
                    (func_kwdefaults fn) (func_closure fn),
                  (Py_DECREF m (Py_INCREF g (Py_INCREF i s)))\<lparr>mem := [a2, a1, i, x, y]\<rparr>)"
    using general by (simp add: fast_function_def Let_def array_at_def)
  have gen: "call_general h m 0 2 2 0 2 s =
           Some (PyEval_EvalCodeEx h (func_code fn) (func_globals fn) [i, x, y] []
                   (case func_defaults fn of None \<Rightarrow> [] | Some ds \<Rightarrow> ds)
                   (func_kwdefaults fn) (func_closure fn),
                 0,
                 Py_DECREF g
                   ((Py_DECREF m (Py_INCREF g (Py_INCREF i s)))\<lparr>mem := [a2, a1, i, x, y]\<rparr>))"
    using meth func stack
    by (simp add: call_general_def PyMethod_Check_def PyMethod_GET_SELF_def
          PyMethod_GET_FUNCTION_def Let_def ff)
  have opa: "unat ((2 :: 32 word) AND 0xff) = 2" by simp
  have opk: "unat (drop_bit 8 (2 :: 32 word) AND 0xff) = 0" by simp
  show ?thesis
    using meth stack
    by (simp add: call_function_def opa opk PyCFunction_Check_def Let_def gen drain_not_above)
qed

theorem bound_method_general_path_arguments_witness:
  "\<exists>s'. call_function example_host (example_state [12, 11, 5, 98, 99]) 0 2 = Some (Inr 98, 0, s') \<and>
        PyEval_EvalCodeEx example_host (func_code example_function_with_default)
          (func_globals example_function_with_default) [6, 11, 12] [] [9] None None = Inr 11"
proof -
  have meth: "ob_type example_host 5 = MethodType (Some 6) 7" by (simp add: example_host_def)
  have func: "ob_type example_host 7 = FunctionType example_function_with_default"
    by (simp add: example_host_def)
  have general: "\<not> fast_path_eligible example_function_with_default 3 0"
    by (simp add: fast_path_eligible_def example_function_with_default_def)
  have stack: "mem (example_state [12, 11, 5, 98, 99]) = [12, 11, 5, 98, 99]"
    by (simp add: example_state_def)
  have r1: "PyEval_EvalCodeEx example_host c g [6, 98, 99] k d kd cl = Inr 98" for c g k d kd cl
    by (simp add: example_host_def)
  have r2: "PyEval_EvalCodeEx example_host c g [6, 11, 12] k d kd cl = Inr 11" for c g k d kd cl
    by (simp add: example_host_def)
  from bound_method_general_path_arguments [OF meth func general stack]
  show ?thesis unfolding r1 r2 by simp
qed

section \<open>Loading and calling compiled code\<close>

lemma io_error_exit_unmapped:
  assumes "entry self = None"
  shows "io_error_exit y self fo path w =
           (Inl (IOErrorWithFilename (w_errno w) path), w_decref fo (w_decref (code self) w))"
  using assms by (simp add: io_error_exit_def error_exit_def CompiledCode_dealloc_def)

lemma error_exit_unmapped:
  assumes "entry self = None"
  shows "error_exit y self fo e w = (Inl e, w_decref fo (w_decref (code self) w))"
  using assms by (simp add: error_exit_def CompiledCode_dealloc_def)

lemma w_fields [simp]:
  "w_open (w_decref ob w) = w_open w" "w_mapped (w_decref ob w) = w_mapped w"
  "w_errno (w_decref ob w) = w_errno w"
  "w_open (w_incref ob w) = w_open w" "w_mapped (w_incref ob w) = w_mapped w"
  "w_errno (w_incref ob w) = w_errno w"
  "w_refcnt (w_decref ob w) = (w_refcnt w)(ob := w_refcnt w ob - 1)"
  "w_refcnt (w_incref ob w) = (w_refcnt w)(ob := w_refcnt w ob + 1)"
  by (simp_all add: w_decref_def w_incref_def)

lemma c_close_fields [simp]:
  "w_open (c_close y d w) = remove1 d (w_open w)"
  "w_mapped (c_close y d w) = w_mapped w"
  "w_refcnt (c_close y d w) = w_refcnt w"
  by (simp_all add: c_close_def split: option.splits)

text \<open>
  Claim C6 says that a construction failing at the open, length or map step raises an
  error that carries the path. For the map step the code raises \<^verbatim>\<open>OSError\<close> from
  \<^verbatim>\<open>errno\<close> alone. What holds: when the operating system refuses at any of the three
  steps, no object is returned; the exception is \<^verbatim>\<open>IOError\<close> with \<^verbatim>\<open>errno\<close> and the
  path for the open and length steps, and \<^verbatim>\<open>OSError\<close> with \<^verbatim>\<open>errno\<close> for the map step;
  the object under construction is destroyed: its reference to \<open>code\<close> is given back, the
  descriptor is closed and nothing stays mapped. The only change to the reference counts
  is the release of the converted file name.
\<close>

theorem CompiledCode_new_failure:
  assumes parsed: "parse_args y args kwds = Inr (fo, path, code_o)"
      and alloc: "tp_alloc y = None"
      and fails: "failing_step y path = Some st"
  shows "\<exists>w'. CompiledCode_new y args kwds w =
                (Inl (if st = Map then OSErrorFromErrno (w_errno w')
                      else IOErrorWithFilename (w_errno w') path), w') \<and>
              w_open w' = w_open w \<and> w_mapped w' = w_mapped w \<and>
              w_refcnt w' = w_refcnt (w_decref fo w)"
  using assms
  by (auto simp add: CompiledCode_new_def failing_step_def Let_def io_error_exit_unmapped
        error_exit_unmapped
      split: sum.splits option.splits)


lemma example_new_nonexistent:
  "parse_args example_os 3 None = Inr (70, ''/nonexistent'', 71)"
  "tp_alloc example_os = None"
  "failing_step example_os ''/nonexistent'' = Some Open"
  by (simp_all add: example_os_def failing_step_def)

theorem CompiledCode_new_failure_witness:
  "\<exists>w'. CompiledCode_new example_os 3 None example_world =
           (Inl (IOErrorWithFilename 2 ''/nonexistent''), w') \<and>
         w_errno w' = 2 \<and> w_open w' = [0, 1, 2] \<and> w_mapped w' = [] \<and> w_refcnt w' 71 = 1"
proof -
  from CompiledCode_new_failure [OF example_new_nonexistent, of example_world]
  obtain w' where
    run: "CompiledCode_new example_os 3 None example_world =
            (Inl (IOErrorWithFilename (w_errno w') ''/nonexistent''), w')"
    and rest: "w_open w' = w_open example_world" "w_mapped w' = w_mapped example_world"
      "w_refcnt w' = w_refcnt (w_decref 70 example_world)"
    by auto
  have "fst (CompiledCode_new example_os 3 None example_world) =
          Inl (IOErrorWithFilename 2 ''/nonexistent'')"
    by (simp add: CompiledCode_new_def example_os_def Let_def io_error_exit_def error_exit_def)
  with run have en: "w_errno w' = 2" by simp
  from run rest en show ?thesis by (auto simp add: example_world_def)
qed

text \<open>
  Counterexample to claim C6 as stated: mapping \<open>/tmp/big\<close> is refused, and the
  exception raised is \<^verbatim>\<open>OSError\<close> built from \<^verbatim>\<open>errno\<close>, which carries no path.
\<close>

theorem CompiledCode_new_map_failure_counterexample:
  "failing_step example_os ''/tmp/big'' = Some Map \<and>
   fst (CompiledCode_new example_os 2 None example_world) = Inl (OSErrorFromErrno 12) \<and>
   exc_filename (OSErrorFromErrno 12) \<noteq> Some ''/tmp/big''"
  by (simp add: failing_step_def CompiledCode_new_def example_os_def example_world_def Let_def
        error_exit_def c_close_def exc_filename_def)

text \<open>
  Claim C5. An object returned by \<^verbatim>\<open>CompiledCode_new\<close> has the base address of its
  mapping as entry point, and calling the object, with whatever positional and keyword
  arguments, runs the code at that address with no argument and returns what it returns,
  result or failure.
\<close>

theorem CompiledCode_call_ignores_arguments:
  assumes "CompiledCode_new y a k w = (Inr self, w')"
  shows "\<exists>base. entry self = Some base \<and> (base, len self) \<in> set (w_mapped w') \<and>
           (\<forall>args kw. CompiledCode_call y self args kw = Some (native_code y base))"
  using assms
  by (auto simp add: CompiledCode_new_def Let_def io_error_exit_def error_exit_def
        CompiledCode_call_def
      split: sum.splits option.splits prod.splits)

theorem CompiledCode_call_ignores_arguments_witness:
  "fst (CompiledCode_new example_os 1 None example_world) =
     Inr \<lparr>code = 71, entry = Some 4096, fd = 3, len = 64\<rparr> \<and>
   CompiledCode_call example_os \<lparr>code = 71, entry = Some 4096, fd = 3, len = 64\<rparr> 33 (Some 34) =
     Some (Inr 200) \<and>
   CompiledCode_call example_os \<lparr>code = 71, entry = Some 4096, fd = 3, len = 64\<rparr> 35 None =
     Some (Inr 200)"
proof -
  have built: "fst (CompiledCode_new example_os 1 None example_world) =
                 Inr \<lparr>code = 71, entry = Some 4096, fd = 3, len = 64\<rparr>"
    by (simp add: CompiledCode_new_def example_os_def Let_def)
  then have run: "CompiledCode_new example_os 1 None example_world =
                    (Inr \<lparr>code = 71, entry = Some 4096, fd = 3, len = 64\<rparr>,
                     snd (CompiledCode_new example_os 1 None example_world))"
    by (metis prod.collapse)
  have code_at: "native_code example_os base = Inr 200" for base
    by (simp add: example_os_def)
  from CompiledCode_call_ignores_arguments [OF run] built show ?thesis
    by (auto simp add: code_at)
qed

end
